theory Spec2Isabelle
  imports Main "HOL-Library.Word"
begin

section \<open>Data model\<close>

text \<open>
  The records follow the Prisma model types the services import from the client
  (\<open>Session\<close>, \<open>Token\<close>, \<open>User\<close>, \<open>TokenType\<close>, \<open>Role\<close>). Field names carry the
  name of their model as a prefix, since \<open>id\<close> and \<open>userId\<close> occur in several models.
  A \<open>Date\<close> is its \<open>getTime()\<close> value: milliseconds since the epoch, an integer.
\<close>

datatype Role = USER | ADMIN

datatype TokenType = RESET_PASSWORD | VERIFY_EMAIL

record User =
  user_id :: string
  user_email :: string
  user_name :: string
  user_password :: string
  user_role :: Role
  user_isEmailVerified :: bool

record Session =
  session_id :: string
  session_userId :: string
  session_expiresAt :: int

text \<open>
  A token row has the five columns that \<open>saveToken\<close> writes (token.service.ts, lines
  136-142).
\<close>

record Token =
  token_token :: string
  token_userId :: string
  token_expires :: int
  token_type :: TokenType
  token_blacklisted :: bool

text \<open>
  Everything a service can throw. \<open>ApiError\<close> carries the HTTP status and the message,
  \<open>Error\<close> and \<open>TypeError\<close> are the JavaScript errors with their message; the remaining
  constructors are the failures of the persistence client.
\<close>

datatype error =
    ApiError nat string
  | Error string
  | TypeError string
  | UniqueConstraintFailed
  | ForeignKeyConstraintFailed
  | RecordNotFound
  | InconsistentQueryResult
  | ClientRequestFailed

definition UNAUTHORIZED :: nat where "UNAUTHORIZED = 401"
definition FORBIDDEN :: nat where "FORBIDDEN = 403"

text \<open>
  The store: one list of rows per table, in insertion order. An operation of the
  services is a function from the store to a result (an error or a value) and the store
  it leaves behind; the store survives a failure, since no service runs in a transaction.
\<close>

record db =
  users :: "User list"
  sessions :: "Session list"
  tokens :: "Token list"

type_synonym 'a io = "db \<Rightarrow> (error + 'a) \<times> db"

section \<open>The persistence client\<close>

text \<open>
  The Prisma schema and the generated client are not among the sources. Sections 3, 4.2
  and 6 of the specification give the store's contract: records are keyed by their hashed
  identifier, uniqueness is enforced on that field for both record kinds, an insertion
  of an existing identifier fails, and sessions and purpose tokens reference their user
  by a foreign key. Each operation below is one call of the client as the services make
  it.
\<close>

text \<open>
  Modelled from the spec: \<open>prisma.session.create\<close> (section 4.2, \<open>put\<close>). It fails when
  the identifier exists already or when the session's user does not.
\<close>

definition session_create :: "Session \<Rightarrow> Session io" where
  "session_create s d =
     (if \<exists>r \<in> set (sessions d). session_id r = session_id s
        then (Inl UniqueConstraintFailed, d)
      else if \<not> (\<exists>u \<in> set (users d). user_id u = session_userId s)
        then (Inl ForeignKeyConstraintFailed, d)
      else (Inr s, d\<lparr>sessions := sessions d @ [s]\<rparr>))"

text \<open>
  Modelled from the spec: \<open>prisma.session.findUnique\<close> on the session identifier with
  \<open>include: { user: true }\<close> (section 4.2, \<open>getById\<close>, joined with the owning user). The relation is a required one (the result's \<open>user\<close> has type
  \<open>User\<close>, not \<open>User | null\<close>, or \<open>validateSessionToken\<close> would not have its return type),
  so a session whose user is missing is a failure of the query, not a result.
\<close>

definition session_findUnique_include_user :: "string \<Rightarrow> (Session \<times> User) option io" where
  "session_findUnique_include_user i d =
     (case find (\<lambda>r. session_id r = i) (sessions d) of
        None \<Rightarrow> (Inr None, d)
      | Some s \<Rightarrow>
          (case find (\<lambda>u. user_id u = session_userId s) (users d) of
             None \<Rightarrow> (Inl InconsistentQueryResult, d)
           | Some u \<Rightarrow> (Inr (Some (s, u)), d)))"

text \<open>
  Modelled from the spec: \<open>prisma.session.delete\<close> (section 4.2, \<open>deleteById\<close>). The
  caller expects the row to exist; its absence is an error.
\<close>

definition session_delete :: "string \<Rightarrow> unit io" where
  "session_delete i d =
     (if \<exists>r \<in> set (sessions d). session_id r = i
        then (Inr (), d\<lparr>sessions := filter (\<lambda>r. session_id r \<noteq> i) (sessions d)\<rparr>)
      else (Inl RecordNotFound, d))"

text \<open>
  Modelled from the spec: \<open>prisma.session.update\<close> of the expiry alone (section 4.2,
  \<open>updateExpiry\<close>).
\<close>

definition session_update_expiresAt :: "string \<Rightarrow> int \<Rightarrow> unit io" where
  "session_update_expiresAt i e d =
     (if \<exists>r \<in> set (sessions d). session_id r = i
        then (Inr (),
              d\<lparr>sessions :=
                  map (\<lambda>r. if session_id r = i then r\<lparr>session_expiresAt := e\<rparr> else r)
                    (sessions d)\<rparr>)
      else (Inl RecordNotFound, d))"

text \<open>
  Modelled from the spec: \<open>prisma.token.create\<close> (section 4.2, \<open>put\<close>), with the same two
  checks as for a session.
\<close>

definition token_create :: "Token \<Rightarrow> Token io" where
  "token_create t d =
     (if \<exists>r \<in> set (tokens d). token_token r = token_token t
        then (Inl UniqueConstraintFailed, d)
      else if \<not> (\<exists>u \<in> set (users d). user_id u = token_userId t)
        then (Inl ForeignKeyConstraintFailed, d)
      else (Inr t, d\<lparr>tokens := tokens d @ [t]\<rparr>))"

text \<open>
  Modelled from the spec: \<open>prisma.token.findFirst\<close> with the filter
  \<open>{ token, type, blacklisted }\<close> (section 4.2, \<open>findByPurpose\<close>): the first row, in
  insertion order, that equals the filter in all three columns.
\<close>

definition token_findFirst :: "string \<Rightarrow> TokenType \<Rightarrow> bool \<Rightarrow> Token option io" where
  "token_findFirst h ty b d =
     (Inr (find (\<lambda>r. token_token r = h \<and> token_type r = ty \<and> token_blacklisted r = b)
             (tokens d)), d)"

text \<open>
  Modelled from the spec: \<open>prisma.token.deleteMany\<close> with the filter \<open>{ userId, type }\<close>
  (section 4.2, \<open>deleteAllByUserAndPurpose\<close>). It removes every row that matches and does
  not fail when none does. Like every call of the store it is an awaited request, which
  can fail for a cause outside the store (section 5: transient store failures propagate
  unchanged); \<open>fault\<close> is that failure, if there is one, and the store is then left as it
  was.
\<close>

definition token_deleteMany :: "error option \<Rightarrow> string \<Rightarrow> TokenType \<Rightarrow> unit io" where
  "token_deleteMany fault uid ty d =
     (case fault of
        Some e \<Rightarrow> (Inl e, d)
      | None \<Rightarrow>
          (Inr (), d\<lparr>tokens :=
                      filter (\<lambda>r. \<not> (token_userId r = uid \<and> token_type r = ty))
                        (tokens d)\<rparr>))"

section \<open>The token codec\<close>

text \<open>
  The digest of a raw token is computed by three functions of the platform and of the
  \<open>@oslojs\<close> packages, none of them code of this repository; the model takes them as
  parameters. A JavaScript string is a \<open>string\<close>, an \<open>Uint8Array\<close> a list of bytes. \<open>hashed\<close> is the expression
  \<open>encoding.encodeHexLowerCase(sha256(new TextEncoder().encode(token)))\<close>, which
  token.service.ts writes out at lines 40, 65, 107, 132 and 161.
\<close>

record codec =
  encode :: "string \<Rightarrow> 8 word list"
  sha256 :: "8 word list \<Rightarrow> 8 word list"
  encodeHexLowerCase :: "8 word list \<Rightarrow> string"

definition hashed :: "codec \<Rightarrow> string \<Rightarrow> string" where
  "hashed L token = encodeHexLowerCase L (sha256 L (encode L token))"

section \<open>token.service.ts\<close>

definition days :: "int \<Rightarrow> int" where
  \<comment> \<open>\<open>1000 * 60 * 60 * 24 * n\<close>\<close>
  "days n = 1000 * 60 * 60 * 24 * n"

text \<open>
  \<open>createSession\<close>: \<open>now\<close> is the reading of \<open>Date.now()\<close>, used only when no expiry is
  passed.
\<close>

definition createSession :: "codec \<Rightarrow> int \<Rightarrow> string \<Rightarrow> string \<Rightarrow> int option \<Rightarrow> Session io" where
  "createSession L now token userId expiresAt d =
     (let sessionId = hashed L token;
          session = \<lparr>session_id = sessionId, session_userId = userId,
                     session_expiresAt =
                       (case expiresAt of Some e \<Rightarrow> e | None \<Rightarrow> now + days 30)\<rparr>
      in case session_create session d of
           (Inl e, d') \<Rightarrow> (Inl e, d')
         | (Inr _, d') \<Rightarrow> (Inr session, d'))"

record SessionValidationResult =
  session :: "Session option"
  user :: "User option"

text \<open>
  \<open>validateSessionToken\<close> reads the clock up to three times: \<open>now1\<close> is the reading
  compared with the expiry (line 81), \<open>now2\<close> the reading compared with the start of the
  renewal window (line 85), \<open>now3\<close> the reading the new expiry is computed from (line 86).
\<close>

definition validateSessionToken ::
  "codec \<Rightarrow> int \<Rightarrow> int \<Rightarrow> int \<Rightarrow> string \<Rightarrow> SessionValidationResult io" where
  "validateSessionToken L now1 now2 now3 token d =
     (let sessionId = hashed L token in
      case session_findUnique_include_user sessionId d of
        (Inl e, d1) \<Rightarrow> (Inl e, d1)
      | (Inr None, d1) \<Rightarrow> (Inr \<lparr>session = None, user = None\<rparr>, d1)
      | (Inr (Some (s, u)), d1) \<Rightarrow>
          if now1 \<ge> session_expiresAt s then
            (case session_delete sessionId d1 of
               (Inl e, d2) \<Rightarrow> (Inl e, d2)
             | (Inr _, d2) \<Rightarrow> (Inr \<lparr>session = None, user = None\<rparr>, d2))
          else if now2 \<ge> session_expiresAt s - days 15 then
            (let s' = s\<lparr>session_expiresAt := now3 + days 30\<rparr> in
             case session_update_expiresAt (session_id s') (session_expiresAt s') d1 of
               (Inl e, d2) \<Rightarrow> (Inl e, d2)
             | (Inr _, d2) \<Rightarrow> (Inr \<lparr>session = Some s', user = Some u\<rparr>, d2))
          else (Inr \<lparr>session = Some s, user = Some u\<rparr>, d1))"

definition invalidateSession :: "codec \<Rightarrow> string \<Rightarrow> unit io" where
  "invalidateSession L token d = session_delete (hashed L token) d"

definition saveToken ::
  "codec \<Rightarrow> string \<Rightarrow> string \<Rightarrow> int \<Rightarrow> TokenType \<Rightarrow> bool \<Rightarrow> Token io" where
  "saveToken L token userId expires type blacklisted d =
     (let hashedToken = hashed L token in
      token_create \<lparr>token_token = hashedToken, token_userId = userId,
                    token_expires = expires, token_type = type,
                    token_blacklisted = blacklisted\<rparr> d)"

definition verifyToken :: "codec \<Rightarrow> string \<Rightarrow> TokenType \<Rightarrow> bool \<Rightarrow> Token io" where
  "verifyToken L token type blacklisted d =
     (let hashedToken = hashed L token in
      case token_findFirst hashedToken type blacklisted d of
        (Inl e, d') \<Rightarrow> (Inl e, d')
      | (Inr None, d') \<Rightarrow> (Inl (Error ''Token not found''), d')
      | (Inr (Some tokenData), d') \<Rightarrow> (Inr tokenData, d'))"

section \<open>auth.service.ts\<close>

text \<open>
  The user service (\<open>user.service.ts\<close>) is not among the sources; \<open>resetPassword\<close> takes
  its two functions as parameters. \<open>updateUserById\<close> receives the fields to change.
\<close>

datatype UserUpdateInput = Password string | IsEmailVerified bool

record userService =
  getUserById :: "string \<Rightarrow> User option io"
  updateUserById :: "string \<Rightarrow> UserUpdateInput \<Rightarrow> User io"

text \<open>
  \<open>resetPassword_try\<close> is the \<open>try\<close> block of \<open>resetPassword\<close> (lines 57-68),
  \<open>resetPassword\<close> adds the \<open>catch\<close> (lines 69-72). The \<open>catch\<close> also logs the error it
  caught; the log is not part of the store and is left out. \<open>fault\<close> is the failure, if
  any, of the awaited \<open>prisma.token.deleteMany\<close> (lines 66-68).
\<close>

definition resetPassword_try ::
  "codec \<Rightarrow> userService \<Rightarrow> error option \<Rightarrow> string \<Rightarrow> string \<Rightarrow> unit io" where
  "resetPassword_try L US fault resetPasswordToken newPassword d =
     (case verifyToken L resetPasswordToken RESET_PASSWORD False d of
        (Inl e, d1) \<Rightarrow> (Inl e, d1)
      | (Inr resetPasswordTokenData, d1) \<Rightarrow>
          (case getUserById US (token_userId resetPasswordTokenData) d1 of
             (Inl e, d2) \<Rightarrow> (Inl e, d2)
           | (Inr None, d2) \<Rightarrow> (Inl (Error ''''), d2)
           | (Inr (Some u), d2) \<Rightarrow>
               (case updateUserById US (user_id u) (Password newPassword) d2 of
                  (Inl e, d3) \<Rightarrow> (Inl e, d3)
                | (Inr _, d3) \<Rightarrow> token_deleteMany fault (user_id u) RESET_PASSWORD d3)))"

definition resetPassword ::
  "codec \<Rightarrow> userService \<Rightarrow> error option \<Rightarrow> string \<Rightarrow> string \<Rightarrow> unit io" where
  "resetPassword L US fault resetPasswordToken newPassword d =
     (case resetPassword_try L US fault resetPasswordToken newPassword d of
        (Inl e, d') \<Rightarrow> (Inl (ApiError UNAUTHORIZED ''Password reset failed''), d')
      | (Inr _, d') \<Rightarrow> (Inr (), d'))"

section \<open>middlewares/auth.ts\<close>

text \<open>
  \<open>split_space\<close> is \<open>String.prototype.split(" ")\<close>: the pieces between single spaces,
  empty pieces included, one piece for a string with no space. \<open>at_index\<close> is an array
  read, \<open>undefined\<close> out of range.
\<close>

fun split_space :: "string \<Rightarrow> string list" where
  "split_space [] = [[]]"
| "split_space (c # cs) =
     (if c = CHR '' '' then [] # split_space cs
      else (case split_space cs of
              [] \<Rightarrow> [[c]]
            | w # ws \<Rightarrow> (c # w) # ws))"

definition at_index :: "'a list \<Rightarrow> nat \<Rightarrow> 'a option" where
  "at_index xs i = (if i < length xs then Some (xs ! i) else None)"

text \<open>
  What the middleware reads of the request: the \<open>authorization\<close> header and the route
  parameter \<open>userId\<close>, both possibly absent.
\<close>

record Request =
  authorization :: "string option"
  params_userId :: "string option"

definition bearer :: "Request \<Rightarrow> string option" where
  \<comment> \<open>\<open>req.headers.authorization?.split(" ")[1]\<close>\<close>
  "bearer req = (case authorization req of
                   None \<Rightarrow> None
                 | Some h \<Rightarrow> at_index (split_space h) 1)"

text \<open>
  The middleware ends in one of three ways: it calls \<open>next()\<close> with the user attached to
  the request, it calls \<open>next(err)\<close>, or an exception escapes the asynchronous executor of
  the promise, which then never settles and never calls \<open>next\<close>.
\<close>

datatype outcome =
    Next "User option"
  | NextErr error
  | NeverSettles error

text \<open>
  \<open>roleRights\<close> (\<open>config/roles.ts\<close>, not among the sources) is a parameter: the map from
  a role to its list of rights. A token that is \<open>undefined\<close> is encoded by \<open>TextEncoder\<close>
  as the empty string.
\<close>

definition auth ::
  "codec \<Rightarrow> (Role \<rightharpoonup> string list) \<Rightarrow> int \<Rightarrow> int \<Rightarrow> int \<Rightarrow> string list \<Rightarrow> Request
     \<Rightarrow> db \<Rightarrow> outcome \<times> db" where
  "auth L roleRights now1 now2 now3 requiredRights req d =
     (let sessionId = bearer req
      in case validateSessionToken L now1 now2 now3
                (case sessionId of None \<Rightarrow> [] | Some t \<Rightarrow> t) d of
           (Inl e, d') \<Rightarrow> (NeverSettles e, d')
         | (Inr r, d') \<Rightarrow>
             (case session r of
                None \<Rightarrow> (NextErr (ApiError UNAUTHORIZED ''Please authenticate''), d')
              | Some _ \<Rightarrow>
                  if requiredRights \<noteq> [] then
                    (case user r of
                       None \<Rightarrow> (NeverSettles (TypeError ''user is null''), d')
                     | Some u \<Rightarrow>
                         (let userRights = (case roleRights (user_role u) of
                                              None \<Rightarrow> []
                                            | Some rs \<Rightarrow> rs);
                              hasRequiredRights =
                                list_all (\<lambda>requiredRight. requiredRight \<in> set userRights)
                                  requiredRights
                          in if \<not> hasRequiredRights \<and> params_userId req \<noteq> Some (user_id u)
                             then (NextErr (ApiError FORBIDDEN ''Forbidden''), d')
                             else (Next (user r), d')))
                  else (Next (user r), d')))"

section \<open>Invariants of the store\<close>

text \<open>
  The two facts about a store that the properties below rely on, both kept by the
  persistence client: the hashed token is unique among the token rows, and every session
  row references a user row.
\<close>

definition tokens_unique :: "db \<Rightarrow> bool" where
  "tokens_unique d = distinct (map token_token (tokens d))"

definition sessions_have_user :: "db \<Rightarrow> bool" where
  "sessions_have_user d =
     list_all (\<lambda>s. list_ex (\<lambda>u. user_id u = session_userId s) (users d)) (sessions d)"

text \<open>
  What the properties need of the user service: its two functions leave the token table
  alone, and a user it returns for an identifier has that identifier.
\<close>

definition user_service_contract :: "userService \<Rightarrow> bool" where
  "user_service_contract US =
     ((\<forall>i x r x'. getUserById US i x = (r, x') \<longrightarrow>
          tokens x' = tokens x \<and> (\<forall>u. r = Inr (Some u) \<longrightarrow> user_id u = i))
    \<and> (\<forall>i p x r x'. updateUserById US i p x = (r, x') \<longrightarrow> tokens x' = tokens x))"

text \<open>\<open>reexpire f\<close> gives a token row the expiry \<open>f\<close> computes for it.\<close>

definition reexpire :: "(Token \<Rightarrow> int) \<Rightarrow> Token \<Rightarrow> Token" where
  "reexpire f r = r\<lparr>token_expires := f r\<rparr>"

section \<open>Instances for evaluation\<close>

text \<open>
  A codec to run the model on examples: the text encoder for ASCII, the hexadecimal
  encoder as it is, and a one-byte checksum in the place of SHA-256.
\<close>

definition hex_digit :: "8 word \<Rightarrow> char" where
  "hex_digit w = ''0123456789abcdef'' ! unat w"

definition hex_lower :: "8 word list \<Rightarrow> string" where
  "hex_lower bs = concat (map (\<lambda>b. [hex_digit (drop_bit 4 b), hex_digit (take_bit 4 b)]) bs)"

definition checksum_codec :: codec where
  "checksum_codec =
     \<lparr>encode = map of_char, sha256 = (\<lambda>bs. [fold (+) bs 0]), encodeHexLowerCase = hex_lower\<rparr>"

text \<open>
  Modelled from the spec: \<open>user.service.ts\<close> is missing; section 6 gives the user lookup
  collaborator as \<open>getById(id)\<close> and \<open>updateById(id, partialFields)\<close>. The instance looks
  the user up by identifier and overwrites the given field, failing with 404 when there
  is no such user.
\<close>

definition store_userService :: userService where
  "store_userService =
     \<lparr>getUserById = (\<lambda>i d. (Inr (find (\<lambda>u. user_id u = i) (users d)), d)),
      updateUserById = (\<lambda>i upd d.
         case find (\<lambda>u. user_id u = i) (users d) of
           None \<Rightarrow> (Inl (ApiError 404 ''User not found''), d)
         | Some u \<Rightarrow>
             (let u' = (case upd of
                          Password p \<Rightarrow> u\<lparr>user_password := p\<rparr>
                        | IsEmailVerified b \<Rightarrow> u\<lparr>user_isEmailVerified := b\<rparr>)
              in (Inr u',
                  d\<lparr>users := map (\<lambda>x. if user_id x = i then u' else x) (users d)\<rparr>)))\<rparr>"

definition sample_roleRights :: "Role \<rightharpoonup> string list" where
  "sample_roleRights = [USER \<mapsto> [], ADMIN \<mapsto> [''getUsers'', ''manageUsers'']]"

definition alice :: User where
  "alice = \<lparr>user_id = ''u1'', user_email = ''alice@example.com'', user_name = ''Alice'',
            user_password = ''pw'', user_role = USER, user_isEmailVerified = False\<rparr>"

definition db0 :: db where
  "db0 = \<lparr>users = [alice], sessions = [], tokens = []\<rparr>"

text \<open>A user service whose update always fails.\<close>

definition failing_userService :: userService where
  "failing_userService =
     store_userService\<lparr>updateUserById := (\<lambda>i upd d. (Inl (ApiError 404 ''User not found''), d))\<rparr>"

text \<open>
  The store \<open>db0\<close> with one session of Alice for the raw token \<open>abc\<close>, expiring at \<open>e\<close>;
  and with one purpose token for the raw token \<open>abc\<close>.
\<close>

definition abc_session :: "int \<Rightarrow> Session" where
  "abc_session e = \<lparr>session_id = hashed checksum_codec ''abc'', session_userId = ''u1'',
                    session_expiresAt = e\<rparr>"

definition db_session :: "int \<Rightarrow> db" where
  "db_session e = db0\<lparr>sessions := [abc_session e]\<rparr>"

definition abc_token :: "string \<Rightarrow> int \<Rightarrow> TokenType \<Rightarrow> bool \<Rightarrow> Token" where
  "abc_token uid e ty b = \<lparr>token_token = hashed checksum_codec ''abc'', token_userId = uid,
                           token_expires = e, token_type = ty, token_blacklisted = b\<rparr>"

definition db_token :: "string \<Rightarrow> int \<Rightarrow> TokenType \<Rightarrow> bool \<Rightarrow> db" where
  "db_token uid e ty b = db0\<lparr>tokens := [abc_token uid e ty b]\<rparr>"

text \<open>
  The store with Alice's reset token for \<open>abc\<close> after her password has become \<open>new\<close>.
\<close>

definition db_new_password :: db where
  "db_new_password =
     \<lparr>users = [alice\<lparr>user_password := ''new''\<rparr>], sessions = [],
      tokens = [abc_token ''u1'' 600 RESET_PASSWORD False]\<rparr>"

section \<open>Facts about the store\<close>

lemma find_append_new:
  "\<not> (\<exists>r \<in> set xs. P r) \<Longrightarrow> P s \<Longrightarrow> find P (xs @ [s]) = Some s"
  by (induction xs) auto

lemma find_user_id:
  "\<exists>u \<in> set us. user_id u = i \<Longrightarrow>
   \<exists>u. find (\<lambda>u. user_id u = i) us = Some u \<and> user_id u = i"
  by (induction us) auto

lemma find_Some_pred: "find P xs = Some x \<Longrightarrow> P x \<and> x \<in> set xs"
  by (induction xs) (auto split: if_splits)

lemma find_filter_excluded: "(\<And>x. P x \<Longrightarrow> \<not> Q x) \<Longrightarrow> find P (filter Q xs) = None"
  by (induction xs) auto

lemma find_map_update:
  "find (\<lambda>r. session_id r = i) xs = Some s \<Longrightarrow>
   find (\<lambda>r. session_id r = i)
     (map (\<lambda>r. if session_id r = i then r\<lparr>session_expiresAt := e\<rparr> else r) xs)
   = Some (s\<lparr>session_expiresAt := e\<rparr>)"
  by (induction xs) (auto split: if_splits)

lemma owner_found:
  assumes "sessions_have_user d" and "s \<in> set (sessions d)"
  shows "\<exists>u. find (\<lambda>u. user_id u = session_userId s) (users d) = Some u
              \<and> user_id u = session_userId s"
proof -
  have "\<exists>u \<in> set (users d). user_id u = session_userId s"
    using assms by (auto simp: sessions_have_user_def list_all_iff list_ex_iff)
  then show ?thesis by (rule find_user_id)
qed

lemma unique_token_find:
  assumes "distinct (map token_token xs)" and "r \<in> set xs"
  shows "find (\<lambda>x. token_token x = token_token r \<and> token_type x = token_type r
                    \<and> token_blacklisted x = token_blacklisted r) xs = Some r"
  using assms by (induction xs) (auto simp: image_iff)

lemma unique_token_eq:
  assumes "distinct (map token_token xs)" and "r \<in> set xs" and "x \<in> set xs"
    and "token_token x = token_token r"
  shows "x = r"
  using assms by (induction xs) (auto simp: image_iff)

lemma find_map_reexpire:
  "find (\<lambda>r. token_token r = h \<and> token_type r = ty \<and> token_blacklisted r = b)
     (map (reexpire f) xs)
   = map_option (reexpire f)
       (find (\<lambda>r. token_token r = h \<and> token_type r = ty \<and> token_blacklisted r = b) xs)"
  by (induction xs) (auto simp: reexpire_def)

subsection \<open>What a successful call has done\<close>

lemma createSession_Inr:
  assumes "createSession L now token userId expiresAt d = (Inr s, d')"
  shows "s = \<lparr>session_id = hashed L token, session_userId = userId,
               session_expiresAt = (case expiresAt of Some e \<Rightarrow> e | None \<Rightarrow> now + days 30)\<rparr>"
    and "d' = d\<lparr>sessions := sessions d @ [s]\<rparr>"
    and "\<not> (\<exists>r \<in> set (sessions d). session_id r = hashed L token)"
    and "\<exists>u \<in> set (users d). user_id u = userId"
  using assms
  by (auto simp: createSession_def session_create_def Let_def split: if_splits)

lemma saveToken_Inr:
  assumes "saveToken L token userId expires type blacklisted d = (Inr r, d')"
  shows "r = \<lparr>token_token = hashed L token, token_userId = userId, token_expires = expires,
               token_type = type, token_blacklisted = blacklisted\<rparr>"
    and "d' = d\<lparr>tokens := tokens d @ [r]\<rparr>"
    and "\<not> (\<exists>x \<in> set (tokens d). token_token x = hashed L token)"
    and "\<exists>u \<in> set (users d). user_id u = userId"
  using assms
  by (auto simp: saveToken_def token_create_def Let_def split: if_splits)

lemma verifyToken_Inr:
  assumes "verifyToken L token type blacklisted d = (Inr r, d')"
  shows "d' = d" and "r \<in> set (tokens d)" and "token_token r = hashed L token"
    and "token_type r = type" and "token_blacklisted r = blacklisted"
  using assms
  by (auto simp: verifyToken_def token_findFirst_def dest: find_Some_pred split: option.splits)

lemma contract_getUserById:
  assumes "user_service_contract US" and "getUserById US i x = (Inr (Some u), x')"
  shows "tokens x' = tokens x" and "user_id u = i"
  using assms unfolding user_service_contract_def by blast+

lemma contract_updateUserById:
  assumes "user_service_contract US" and "updateUserById US i p x = (r, x')"
  shows "tokens x' = tokens x"
  using assms unfolding user_service_contract_def by blast

lemma resetPassword_try_Inr:
  assumes "resetPassword_try L US fault token newPassword d = (Inr v, d')"
  obtains r u d2 u' d3 where
    "verifyToken L token RESET_PASSWORD False d = (Inr r, d)"
    "getUserById US (token_userId r) d = (Inr (Some u), d2)"
    "updateUserById US (user_id u) (Password newPassword) d2 = (Inr u', d3)"
    "token_deleteMany fault (user_id u) RESET_PASSWORD d3 = (Inr v, d')"
proof -
  obtain a d1 where v: "verifyToken L token RESET_PASSWORD False d = (a, d1)"
    by (cases "verifyToken L token RESET_PASSWORD False d")
  then obtain r where a: "a = Inr r"
    using assms by (cases a) (simp_all add: resetPassword_try_def)
  have d1: "d1 = d" using verifyToken_Inr(1) v a by simp
  obtain b d2 where g: "getUserById US (token_userId r) d = (b, d2)"
    by (cases "getUserById US (token_userId r) d")
  then obtain u where b: "b = Inr (Some u)"
    using assms v a d1
    by (cases b) (auto simp: resetPassword_try_def split: option.splits)
  obtain c d3 where up: "updateUserById US (user_id u) (Password newPassword) d2 = (c, d3)"
    by (cases "updateUserById US (user_id u) (Password newPassword) d2")
  then obtain u' where c: "c = Inr u'"
    using assms v a d1 g b by (cases c) (simp_all add: resetPassword_try_def)
  have "token_deleteMany fault (user_id u) RESET_PASSWORD d3 = (Inr v, d')"
    using assms v a d1 g b up c by (simp add: resetPassword_try_def)
  then show thesis
    using that v a d1 g b up c by simp
qed

text \<open>
  The services read the raw token only through its digest: two raw tokens with the same
  digest are indistinguishable to every operation.
\<close>

lemma same_digest_same_effect:
  assumes "hashed L t2 = hashed L t1"
  shows "createSession L now t2 userId expiresAt d = createSession L now t1 userId expiresAt d"
    and "saveToken L t2 userId expires type blacklisted d
           = saveToken L t1 userId expires type blacklisted d"
    and "validateSessionToken L now1 now2 now3 t2 d = validateSessionToken L now1 now2 now3 t1 d"
    and "invalidateSession L t2 d = invalidateSession L t1 d"
    and "verifyToken L t2 type blacklisted d = verifyToken L t1 type blacklisted d"
    and "resetPassword L US fault t2 newPassword d
           = resetPassword L US fault t1 newPassword d"
  using assms
  by (simp_all add: createSession_def saveToken_def validateSessionToken_def
      invalidateSession_def verifyToken_def resetPassword_def resetPassword_try_def)

subsection \<open>The invariants are kept\<close>

lemma createSession_keeps_sessions_have_user:
  assumes "sessions_have_user d" and "createSession L now token userId expiresAt d = (r, d')"
  shows "sessions_have_user d'"
  using assms
  by (fastforce simp: createSession_def session_create_def Let_def sessions_have_user_def
      list_all_iff list_ex_iff split: if_splits)

lemma validateSessionToken_keeps_sessions_have_user:
  assumes "sessions_have_user d" and "validateSessionToken L now1 now2 now3 token d = (r, d')"
  shows "sessions_have_user d'"
  using assms
  by (auto simp: validateSessionToken_def session_findUnique_include_user_def
      session_delete_def session_update_expiresAt_def Let_def sessions_have_user_def
      list_all_iff list_ex_iff split: option.splits if_splits)

lemma saveToken_keeps_tokens_unique:
  assumes "tokens_unique d" and "saveToken L token userId expires type blacklisted d = (r, d')"
  shows "tokens_unique d'"
  using assms
  by (fastforce simp: saveToken_def token_create_def Let_def tokens_unique_def
      split: if_splits)

lemma token_deleteMany_keeps_tokens_unique:
  assumes "tokens_unique d" and "token_deleteMany fault uid ty d = (r, d')"
  shows "tokens_unique d'"
  using assms
  by (auto simp: token_deleteMany_def tokens_unique_def distinct_map_filter
      split: option.splits)

subsection \<open>The instances\<close>

lemma hashed_abc: "hashed checksum_codec ''abc'' = ''26''"
  by code_simp

lemma hashed_cba: "hashed checksum_codec ''cba'' = ''26''"
  by code_simp

lemma store_userService_contract: "user_service_contract store_userService"
  by (auto simp: user_service_contract_def store_userService_def Let_def
      dest: find_Some_pred split: option.splits)

lemma failing_userService_contract: "user_service_contract failing_userService"
  by (auto simp: user_service_contract_def failing_userService_def store_userService_def
      dest: find_Some_pred)

section \<open>Session tokens\<close>

text \<open>
  C1, round trip of issuance and validation. If \<open>createSession\<close> succeeds for a raw
  token and a user id, and the reading of the clock that \<open>validateSessionToken\<close> compares
  with the expiry is before the expiry of the session created, then
  \<open>validateSessionToken\<close> with the same raw token returns a result with both fields
  present, whose user has the user id the session was created with. This holds for every
  store, every codec and the other two readings of the clock; the user exists because
  the insertion of a session checks the reference to its user.
\<close>

theorem session_roundtrip:
  assumes created: "createSession L now token userId expiresAt d = (Inr s, d')"
    and future: "now1 < session_expiresAt s"
  shows "\<exists>s' u d''. validateSessionToken L now1 now2 now3 token d'
            = (Inr \<lparr>session = Some s', user = Some u\<rparr>, d'')
          \<and> user_id u = userId \<and> session_userId s' = userId \<and> session_id s' = session_id s"
proof -
  note c = createSession_Inr [OF created]
  have sid: "session_id s = hashed L token" and su: "session_userId s = userId"
    using c(1) by simp_all
  have f1: "find (\<lambda>r. session_id r = hashed L token) (sessions d') = Some s"
    using c(2,3) sid by (simp add: find_append_new)
  obtain u where f2: "find (\<lambda>u. user_id u = userId) (users d') = Some u"
    and uid: "user_id u = userId"
    using find_user_id [OF c(4)] c(2) by auto
  have ex: "\<exists>r \<in> set (sessions d'). session_id r = hashed L token"
    using c(2) sid by auto
  show ?thesis
    using f1 f2 uid su sid future ex
    by (simp add: validateSessionToken_def session_findUnique_include_user_def
        session_update_expiresAt_def Let_def)
qed

theorem session_roundtrip_witness:
  "createSession checksum_codec 1000 ''abc'' ''u1'' None db0
     = (Inr (abc_session (1000 + days 30)), db_session (1000 + days 30))
 \<and> 2000 < session_expiresAt (abc_session (1000 + days 30))
 \<and> (\<exists>s' u d''. validateSessionToken checksum_codec 2000 2000 2000 ''abc''
                    (db_session (1000 + days 30))
                  = (Inr \<lparr>session = Some s', user = Some u\<rparr>, d'')
                \<and> user_id u = ''u1'' \<and> session_userId s' = ''u1''
                \<and> session_id s' = session_id (abc_session (1000 + days 30)))"
proof -
  have c: "createSession checksum_codec 1000 ''abc'' ''u1'' None db0
             = (Inr (abc_session (1000 + days 30)), db_session (1000 + days 30))"
    by (simp add: createSession_def session_create_def db0_def alice_def abc_session_def
        db_session_def Let_def)
  have f: "2000 < session_expiresAt (abc_session (1000 + days 30))"
    by (simp add: abc_session_def days_def)
  show ?thesis
    by (intro conjI c f session_roundtrip [OF c f])
qed

text \<open>
  C2, lazy expiry. For a stored session (in a store whose sessions all have their user)
  whose expiry is at or before the reading of the clock, \<open>validateSessionToken\<close> on its raw
  token returns the absent result, both fields absent, as a value and not as an error,
  and leaves the store without any session of that identifier: a lookup of the identifier
  in the resulting store returns absent.
\<close>

theorem lazy_expiry:
  assumes stored: "find (\<lambda>r. session_id r = hashed L token) (sessions d) = Some s"
    and fk: "sessions_have_user d"
    and expired: "session_expiresAt s \<le> now1"
  shows "\<exists>d'. validateSessionToken L now1 now2 now3 token d
                 = (Inr \<lparr>session = None, user = None\<rparr>, d')
             \<and> d' = d\<lparr>sessions := filter (\<lambda>r. session_id r \<noteq> hashed L token) (sessions d)\<rparr>
             \<and> find (\<lambda>r. session_id r = hashed L token) (sessions d') = None
             \<and> session_findUnique_include_user (hashed L token) d' = (Inr None, d')"
proof -
  have mem: "s \<in> set (sessions d)" and sid: "session_id s = hashed L token"
    using find_Some_pred [OF stored] by simp_all
  obtain u where u: "find (\<lambda>u. user_id u = session_userId s) (users d) = Some u"
    using owner_found [OF fk mem] by blast
  have ex: "\<exists>r \<in> set (sessions d). session_id r = hashed L token"
    using mem sid by blast
  have gone: "find (\<lambda>r. session_id r = hashed L token)
                (filter (\<lambda>r. session_id r \<noteq> hashed L token) (sessions d)) = None"
    by (rule find_filter_excluded) simp
  show ?thesis
    using stored u ex expired gone
    by (simp add: validateSessionToken_def session_findUnique_include_user_def
        session_delete_def Let_def)
qed

theorem lazy_expiry_witness:
  "find (\<lambda>r. session_id r = hashed checksum_codec ''abc'') (sessions (db_session 500))
     = Some (abc_session 500)
 \<and> sessions_have_user (db_session 500)
 \<and> session_expiresAt (abc_session 500) \<le> 500
 \<and> validateSessionToken checksum_codec 500 500 500 ''abc'' (db_session 500)
     = (Inr \<lparr>session = None, user = None\<rparr>, db0)
 \<and> session_findUnique_include_user (hashed checksum_codec ''abc'') db0 = (Inr None, db0)"
proof -
  have a: "find (\<lambda>r. session_id r = hashed checksum_codec ''abc'') (sessions (db_session 500))
             = Some (abc_session 500)"
    by (simp add: db_session_def abc_session_def)
  have b: "sessions_have_user (db_session 500)"
    by (simp add: sessions_have_user_def db_session_def abc_session_def db0_def alice_def)
  have c: "session_expiresAt (abc_session 500) \<le> 500"
    by (simp add: abc_session_def)
  have e: "(db_session 500)\<lparr>sessions :=
              filter (\<lambda>r. session_id r \<noteq> hashed checksum_codec ''abc'')
                (sessions (db_session 500))\<rparr> = db0"
    by (simp add: db_session_def abc_session_def db0_def)
  show ?thesis
    using lazy_expiry [OF a b c, of 500 500] a b c e by simp
qed

text \<open>
  C3, sliding renewal. For a stored session that is not expired (in a store whose
  sessions all have their user): if the reading \<open>now2\<close> of the clock is at or after the
  expiry minus 15 days, \<open>validateSessionToken\<close> returns the session with the expiry
  \<open>now3 + 30 days\<close> and the store holds that expiry for the session's identifier, every
  other column and row as before; otherwise it returns the session as stored and the
  store is the one it was given. A session with exactly 15 days left is renewed.
\<close>

theorem sliding_renewal:
  assumes stored: "find (\<lambda>r. session_id r = hashed L token) (sessions d) = Some s"
    and fk: "sessions_have_user d"
    and valid: "now1 < session_expiresAt s"
  shows "\<exists>u. find (\<lambda>u. user_id u = session_userId s) (users d) = Some u \<and>
           (if now2 \<ge> session_expiresAt s - days 15
            then \<exists>d'. validateSessionToken L now1 now2 now3 token d
                      = (Inr \<lparr>session = Some (s\<lparr>session_expiresAt := now3 + days 30\<rparr>),
                              user = Some u\<rparr>, d')
                  \<and> d' = d\<lparr>sessions :=
                             map (\<lambda>r. if session_id r = hashed L token
                                        then r\<lparr>session_expiresAt := now3 + days 30\<rparr> else r)
                               (sessions d)\<rparr>
                  \<and> find (\<lambda>r. session_id r = hashed L token) (sessions d')
                      = Some (s\<lparr>session_expiresAt := now3 + days 30\<rparr>)
            else validateSessionToken L now1 now2 now3 token d
                   = (Inr \<lparr>session = Some s, user = Some u\<rparr>, d))"
proof -
  have mem: "s \<in> set (sessions d)" and sid: "session_id s = hashed L token"
    using find_Some_pred [OF stored] by simp_all
  obtain u where u: "find (\<lambda>u. user_id u = session_userId s) (users d) = Some u"
    using owner_found [OF fk mem] by blast
  have ex: "\<exists>r \<in> set (sessions d). session_id r = hashed L token"
    using mem sid by blast
  show ?thesis
    using stored u ex valid sid find_map_update [OF stored, of "now3 + days 30"]
    by (simp add: validateSessionToken_def session_findUnique_include_user_def
        session_update_expiresAt_def Let_def cong: if_cong)
qed

theorem sliding_renewal_witness:
  "find (\<lambda>r. session_id r = hashed checksum_codec ''abc'') (sessions (db_session (days 20)))
     = Some (abc_session (days 20))
 \<and> sessions_have_user (db_session (days 20))
 \<and> days 10 < session_expiresAt (abc_session (days 20))
 \<and> days 1 < session_expiresAt (abc_session (days 20))
 \<and> validateSessionToken checksum_codec (days 10) (days 10) (days 10) ''abc''
       (db_session (days 20))
     = (Inr \<lparr>session = Some (abc_session (days 40)), user = Some alice\<rparr>, db_session (days 40))
 \<and> validateSessionToken checksum_codec (days 1) (days 1) (days 1) ''abc''
       (db_session (days 20))
     = (Inr \<lparr>session = Some (abc_session (days 20)), user = Some alice\<rparr>,
        db_session (days 20))"
proof -
  have a: "find (\<lambda>r. session_id r = hashed checksum_codec ''abc'')
             (sessions (db_session (days 20))) = Some (abc_session (days 20))"
    by (simp add: db_session_def abc_session_def)
  have b: "sessions_have_user (db_session (days 20))"
    by (simp add: sessions_have_user_def db_session_def abc_session_def db0_def alice_def)
  have c: "days 10 < session_expiresAt (abc_session (days 20))"
    and c': "days 1 < session_expiresAt (abc_session (days 20))"
    by (simp_all add: abc_session_def days_def)
  have u: "find (\<lambda>u. user_id u = session_userId (abc_session (days 20)))
             (users (db_session (days 20))) = Some alice"
    by (simp add: db_session_def abc_session_def db0_def alice_def)
  have e: "(db_session (days 20))\<lparr>sessions :=
              map (\<lambda>r. if session_id r = hashed checksum_codec ''abc''
                         then r\<lparr>session_expiresAt := days 10 + days 30\<rparr> else r)
                (sessions (db_session (days 20)))\<rparr> = db_session (days 40)"
    and e': "(abc_session (days 20))\<lparr>session_expiresAt := days 10 + days 30\<rparr>
               = abc_session (days 40)"
    by (simp_all add: db_session_def abc_session_def days_def)
  have w: "days 20 - days 15 \<le> days 10" and w': "\<not> days 20 - days 15 \<le> days 1"
    by (simp_all add: days_def)
  have r1: "validateSessionToken checksum_codec (days 10) (days 10) (days 10) ''abc''
              (db_session (days 20))
            = (Inr \<lparr>session = Some (abc_session (days 40)), user = Some alice\<rparr>,
               db_session (days 40))"
    using sliding_renewal [OF a b c, of "days 10" "days 10"] u e e' w
    by (simp add: abc_session_def)
  have r2: "validateSessionToken checksum_codec (days 1) (days 1) (days 1) ''abc''
              (db_session (days 20))
            = (Inr \<lparr>session = Some (abc_session (days 20)), user = Some alice\<rparr>,
               db_session (days 20))"
    using sliding_renewal [OF a b c', of "days 1" "days 1"] u w'
    by (simp add: abc_session_def)
  show ?thesis
    by (intro conjI a b c c' r1 r2)
qed

section \<open>Only the digest is persisted\<close>

text \<open>
  C4, hash-only persistence. The two operations that insert a record for a raw token,
  \<open>createSession\<close> and \<open>saveToken\<close>, store as the record's identifier
  \<open>encodeHexLowerCase (sha256 (encode token))\<close>, the lowercase hexadecimal SHA-256 digest
  of the token's UTF-8 bytes, and add exactly that one record to the store. The raw token
  itself reaches the store in no other way: for every operation that takes a raw token,
  a second raw token with the same digest gives the same result and the same store.
\<close>

theorem hash_only_persistence:
  "(\<forall>s d'. createSession L now token userId expiresAt d = (Inr s, d') \<longrightarrow>
        session_id s = encodeHexLowerCase L (sha256 L (encode L token))
      \<and> session_userId s = userId
      \<and> d' = d\<lparr>sessions := sessions d @ [s]\<rparr>)
 \<and> (\<forall>r d'. saveToken L token userId expires type blacklisted d = (Inr r, d') \<longrightarrow>
        token_token r = encodeHexLowerCase L (sha256 L (encode L token))
      \<and> token_userId r = userId
      \<and> d' = d\<lparr>tokens := tokens d @ [r]\<rparr>)
 \<and> (\<forall>token'. hashed L token' = hashed L token \<longrightarrow>
        createSession L now token' userId expiresAt d
          = createSession L now token userId expiresAt d
      \<and> saveToken L token' userId expires type blacklisted d
          = saveToken L token userId expires type blacklisted d
      \<and> validateSessionToken L now1 now2 now3 token' d
          = validateSessionToken L now1 now2 now3 token d
      \<and> invalidateSession L token' d = invalidateSession L token d
      \<and> verifyToken L token' type blacklisted d = verifyToken L token type blacklisted d
      \<and> resetPassword L US fault token' newPassword d
          = resetPassword L US fault token newPassword d)"
proof (intro conjI allI impI)
  fix s d' assume c: "createSession L now token userId expiresAt d = (Inr s, d')"
  show "session_id s = encodeHexLowerCase L (sha256 L (encode L token))"
    using createSession_Inr(1) [OF c] by (simp add: hashed_def)
  show "session_userId s = userId"
    using createSession_Inr(1) [OF c] by simp
  show "d' = d\<lparr>sessions := sessions d @ [s]\<rparr>"
    by (rule createSession_Inr(2) [OF c])
next
  fix r d' assume c: "saveToken L token userId expires type blacklisted d = (Inr r, d')"
  show "token_token r = encodeHexLowerCase L (sha256 L (encode L token))"
    using saveToken_Inr(1) [OF c] by (simp add: hashed_def)
  show "token_userId r = userId"
    using saveToken_Inr(1) [OF c] by simp
  show "d' = d\<lparr>tokens := tokens d @ [r]\<rparr>"
    by (rule saveToken_Inr(2) [OF c])
next
  fix token' assume h: "hashed L token' = hashed L token"
  show "createSession L now token' userId expiresAt d
          = createSession L now token userId expiresAt d"
    by (rule same_digest_same_effect(1) [OF h])
  show "saveToken L token' userId expires type blacklisted d
          = saveToken L token userId expires type blacklisted d"
    by (rule same_digest_same_effect(2) [OF h])
  show "validateSessionToken L now1 now2 now3 token' d
          = validateSessionToken L now1 now2 now3 token d"
    by (rule same_digest_same_effect(3) [OF h])
  show "invalidateSession L token' d = invalidateSession L token d"
    by (rule same_digest_same_effect(4) [OF h])
  show "verifyToken L token' type blacklisted d = verifyToken L token type blacklisted d"
    by (rule same_digest_same_effect(5) [OF h])
  show "resetPassword L US fault token' newPassword d
          = resetPassword L US fault token newPassword d"
    by (rule same_digest_same_effect(6) [OF h])
qed

theorem hash_only_persistence_witness:
  "createSession checksum_codec 1000 ''abc'' ''u1'' None db0
     = (Inr (abc_session (1000 + days 30)), db_session (1000 + days 30))
 \<and> session_id (abc_session (1000 + days 30))
     = encodeHexLowerCase checksum_codec (sha256 checksum_codec (encode checksum_codec ''abc''))
 \<and> saveToken checksum_codec ''abc'' ''u1'' 600 RESET_PASSWORD False db0
     = (Inr (abc_token ''u1'' 600 RESET_PASSWORD False), db_token ''u1'' 600 RESET_PASSWORD False)
 \<and> token_token (abc_token ''u1'' 600 RESET_PASSWORD False)
     = encodeHexLowerCase checksum_codec (sha256 checksum_codec (encode checksum_codec ''abc''))
 \<and> hashed checksum_codec ''cba'' = hashed checksum_codec ''abc''
 \<and> createSession checksum_codec 1000 ''cba'' ''u1'' None db0
     = createSession checksum_codec 1000 ''abc'' ''u1'' None db0
 \<and> saveToken checksum_codec ''cba'' ''u1'' 600 RESET_PASSWORD False db0
     = saveToken checksum_codec ''abc'' ''u1'' 600 RESET_PASSWORD False db0"
proof -
  have c: "createSession checksum_codec 1000 ''abc'' ''u1'' None db0
             = (Inr (abc_session (1000 + days 30)), db_session (1000 + days 30))"
    by (simp add: createSession_def session_create_def db0_def alice_def abc_session_def
        db_session_def Let_def)
  have t: "saveToken checksum_codec ''abc'' ''u1'' 600 RESET_PASSWORD False db0
             = (Inr (abc_token ''u1'' 600 RESET_PASSWORD False),
                db_token ''u1'' 600 RESET_PASSWORD False)"
    by (simp add: saveToken_def token_create_def db0_def alice_def abc_token_def
        db_token_def Let_def)
  have h: "hashed checksum_codec ''cba'' = hashed checksum_codec ''abc''"
    by (simp add: hashed_abc hashed_cba)
  show ?thesis
    using hash_only_persistence [where L = checksum_codec and now = 1000
        and token = "''abc''" and userId = "''u1''" and expiresAt = None and d = db0
        and expires = 600 and type = RESET_PASSWORD and blacklisted = False] c t h
    by simp
qed

section \<open>Purpose tokens\<close>

text \<open>
  C5, \<open>verifyToken\<close> ignores the expiry. In a store where the hashed token is unique, a
  stored token row whose hashed token is the digest of the raw token is returned by
  \<open>verifyToken\<close> called with the row's own purpose and blacklisted flag, whatever its
  \<open>expires\<close> column holds; \<open>verifyToken\<close> does not read the clock. Moreover, for any store,
  giving every row another expiry changes neither whether \<open>verifyToken\<close> succeeds nor which
  row it returns.
\<close>

theorem verifyToken_ignores_expiry:
  "(tokens_unique d \<and> r \<in> set (tokens d) \<and> token_token r = hashed L token \<longrightarrow>
      verifyToken L token (token_type r) (token_blacklisted r) d = (Inr r, d))
 \<and> fst (verifyToken L token type blacklisted (d\<lparr>tokens := map (reexpire f) (tokens d)\<rparr>))
     = map_sum (\<lambda>e. e) (reexpire f) (fst (verifyToken L token type blacklisted d))"
proof (intro conjI impI)
  assume a: "tokens_unique d \<and> r \<in> set (tokens d) \<and> token_token r = hashed L token"
  then have "find (\<lambda>x. token_token x = hashed L token \<and> token_type x = token_type r
                    \<and> token_blacklisted x = token_blacklisted r) (tokens d) = Some r"
    using unique_token_find [of "tokens d" r] by (simp add: tokens_unique_def)
  then show "verifyToken L token (token_type r) (token_blacklisted r) d = (Inr r, d)"
    by (simp add: verifyToken_def token_findFirst_def)
next
  show "fst (verifyToken L token type blacklisted (d\<lparr>tokens := map (reexpire f) (tokens d)\<rparr>))
     = map_sum (\<lambda>e. e) (reexpire f) (fst (verifyToken L token type blacklisted d))"
    by (simp add: verifyToken_def token_findFirst_def find_map_reexpire split: option.splits)
qed

theorem verifyToken_ignores_expiry_witness:
  "tokens_unique (db_token ''u1'' 0 VERIFY_EMAIL False)
 \<and> abc_token ''u1'' 0 VERIFY_EMAIL False \<in> set (tokens (db_token ''u1'' 0 VERIFY_EMAIL False))
 \<and> token_token (abc_token ''u1'' 0 VERIFY_EMAIL False) = hashed checksum_codec ''abc''
 \<and> token_expires (abc_token ''u1'' 0 VERIFY_EMAIL False) = 0
 \<and> verifyToken checksum_codec ''abc'' VERIFY_EMAIL False (db_token ''u1'' 0 VERIFY_EMAIL False)
     = (Inr (abc_token ''u1'' 0 VERIFY_EMAIL False), db_token ''u1'' 0 VERIFY_EMAIL False)"
proof -
  have a: "tokens_unique (db_token ''u1'' 0 VERIFY_EMAIL False)"
    by (simp add: tokens_unique_def db_token_def)
  have b: "abc_token ''u1'' 0 VERIFY_EMAIL False
             \<in> set (tokens (db_token ''u1'' 0 VERIFY_EMAIL False))"
    by (simp add: db_token_def)
  have c: "token_token (abc_token ''u1'' 0 VERIFY_EMAIL False) = hashed checksum_codec ''abc''"
    and e: "token_expires (abc_token ''u1'' 0 VERIFY_EMAIL False) = 0"
    and ty: "token_type (abc_token ''u1'' 0 VERIFY_EMAIL False) = VERIFY_EMAIL"
    and bl: "token_blacklisted (abc_token ''u1'' 0 VERIFY_EMAIL False) = False"
    by (simp_all add: abc_token_def)
  have "verifyToken checksum_codec ''abc'' VERIFY_EMAIL False
          (db_token ''u1'' 0 VERIFY_EMAIL False)
        = (Inr (abc_token ''u1'' 0 VERIFY_EMAIL False), db_token ''u1'' 0 VERIFY_EMAIL False)"
    using verifyToken_ignores_expiry [where d = "db_token ''u1'' 0 VERIFY_EMAIL False"
        and r = "abc_token ''u1'' 0 VERIFY_EMAIL False" and L = checksum_codec
        and token = "''abc''"] a b c
    by (simp only: ty bl simp_thms)
  then show ?thesis
    using a b c e by simp
qed

text \<open>
  C6, single use of a reset token. Let the hashed token be unique in the store and let
  the user service keep its contract. If \<open>resetPassword\<close> succeeds with a raw token, then
  \<open>verifyToken\<close> had found a row for it, no \<open>RESET_PASSWORD\<close> row of that row's user is
  left in the resulting store, and \<open>verifyToken\<close> with the same raw token and purpose
  \<open>RESET_PASSWORD\<close> fails there with \<open>Error "Token not found"\<close>, for either value of the
  blacklisted flag. A reset during which the deletion of the tokens fails does not
  succeed, so the statement holds whatever \<open>fault\<close> is.
\<close>

theorem reset_token_single_use:
  assumes uniq: "tokens_unique d"
    and contract: "user_service_contract US"
    and ok: "resetPassword L US fault token newPassword d = (Inr (), d')"
  shows "\<exists>r. verifyToken L token RESET_PASSWORD False d = (Inr r, d)
           \<and> (\<forall>x \<in> set (tokens d').
                 \<not> (token_userId x = token_userId r \<and> token_type x = RESET_PASSWORD))
           \<and> (\<forall>b. verifyToken L token RESET_PASSWORD b d'
                      = (Inl (Error ''Token not found''), d'))"
proof -
  have "resetPassword_try L US fault token newPassword d = (Inr (), d')"
    using ok by (auto simp: resetPassword_def split: prod.splits sum.splits)
  then obtain r u d2 u' d3 where
    v: "verifyToken L token RESET_PASSWORD False d = (Inr r, d)" and
    g: "getUserById US (token_userId r) d = (Inr (Some u), d2)" and
    up: "updateUserById US (user_id u) (Password newPassword) d2 = (Inr u', d3)" and
    del: "token_deleteMany fault (user_id u) RESET_PASSWORD d3 = (Inr (), d')"
    by (rule resetPassword_try_Inr)
  note r = verifyToken_Inr [OF v]
  have uid: "user_id u = token_userId r"
    by (rule contract_getUserById(2) [OF contract g])
  have "tokens d2 = tokens d"
    by (rule contract_getUserById(1) [OF contract g])
  moreover have "tokens d3 = tokens d2"
    by (rule contract_updateUserById [OF contract up])
  ultimately have t': "tokens d' = filter (\<lambda>x. \<not> (token_userId x = token_userId r
                                   \<and> token_type x = RESET_PASSWORD)) (tokens d)"
    using del uid by (auto simp: token_deleteMany_def split: option.splits)
  have none: "\<forall>x \<in> set (tokens d').
                 \<not> (token_userId x = token_userId r \<and> token_type x = RESET_PASSWORD)"
    using t' by simp
  have "find (\<lambda>x. token_token x = hashed L token \<and> token_type x = RESET_PASSWORD
                   \<and> token_blacklisted x = b) (tokens d') = None" for b
  proof -
    have "x = r" if "x \<in> set (tokens d')" "token_token x = hashed L token" for x
      using that t' r(2,3) uniq unique_token_eq [of "tokens d" r x]
      by (simp add: tokens_unique_def)
    then show ?thesis
      using none r(4) by (auto simp: find_None_iff)
  qed
  then have "\<forall>b. verifyToken L token RESET_PASSWORD b d'
                      = (Inl (Error ''Token not found''), d')"
    by (simp add: verifyToken_def token_findFirst_def)
  then show ?thesis using v none by blast
qed

theorem reset_token_single_use_witness:
  "tokens_unique (db_token ''u1'' 600 RESET_PASSWORD False)
 \<and> user_service_contract store_userService
 \<and> resetPassword checksum_codec store_userService None ''abc'' ''new''
       (db_token ''u1'' 600 RESET_PASSWORD False)
     = (Inr (), \<lparr>users = [alice\<lparr>user_password := ''new''\<rparr>], sessions = [], tokens = []\<rparr>)
 \<and> (\<exists>r. verifyToken checksum_codec ''abc'' RESET_PASSWORD False
             (db_token ''u1'' 600 RESET_PASSWORD False)
           = (Inr r, db_token ''u1'' 600 RESET_PASSWORD False)
         \<and> (\<forall>x \<in> set (tokens \<lparr>users = [alice\<lparr>user_password := ''new''\<rparr>], sessions = [],
                                  tokens = []\<rparr>).
               \<not> (token_userId x = token_userId r \<and> token_type x = RESET_PASSWORD))
         \<and> (\<forall>b. verifyToken checksum_codec ''abc'' RESET_PASSWORD b
                    \<lparr>users = [alice\<lparr>user_password := ''new''\<rparr>], sessions = [], tokens = []\<rparr>
                  = (Inl (Error ''Token not found''),
                     \<lparr>users = [alice\<lparr>user_password := ''new''\<rparr>], sessions = [],
                        tokens = []\<rparr>)))"
proof -
  have a: "tokens_unique (db_token ''u1'' 600 RESET_PASSWORD False)"
    by (simp add: tokens_unique_def db_token_def)
  have b: "user_service_contract store_userService"
    by (rule store_userService_contract)
  have c: "resetPassword checksum_codec store_userService None ''abc'' ''new''
             (db_token ''u1'' 600 RESET_PASSWORD False)
           = (Inr (), \<lparr>users = [alice\<lparr>user_password := ''new''\<rparr>], sessions = [],
                        tokens = []\<rparr>)"
    by (simp add: resetPassword_def resetPassword_try_def verifyToken_def
        token_findFirst_def token_deleteMany_def store_userService_def db_token_def
        abc_token_def db0_def alice_def Let_def)
  show ?thesis
    by (intro conjI a b c reset_token_single_use [OF a b c])
qed

text \<open>
  C8, blacklist isolation. \<open>verifyToken\<close> called with \<open>blacklisted = false\<close> never returns
  a row whose blacklisted flag is set. Right after \<open>saveToken\<close> has stored a token with
  \<open>blacklisted = true\<close>, \<open>verifyToken\<close> with the same raw token, the same purpose and
  \<open>blacklisted = false\<close> fails with \<open>Error "Token not found"\<close>; and so it does in every
  store with unique hashed tokens that holds a blacklisted row for the raw token.
\<close>

theorem blacklist_isolation:
  "(\<forall>r d'. verifyToken L token type False d = (Inr r, d') \<longrightarrow> \<not> token_blacklisted r)
 \<and> (\<forall>r d'. saveToken L token userId expires type True d = (Inr r, d') \<longrightarrow>
        token_blacklisted r \<and> r \<in> set (tokens d')
      \<and> verifyToken L token type False d' = (Inl (Error ''Token not found''), d'))
 \<and> (\<forall>r. tokens_unique d \<and> r \<in> set (tokens d) \<and> token_token r = hashed L token
          \<and> token_blacklisted r \<longrightarrow>
        verifyToken L token type False d = (Inl (Error ''Token not found''), d))"
proof (intro conjI allI impI)
  fix r d' assume "verifyToken L token type False d = (Inr r, d')"
  then show "\<not> token_blacklisted r"
    by (auto simp: verifyToken_def token_findFirst_def dest: find_Some_pred
        split: option.splits)
next
  fix r d' assume c: "saveToken L token userId expires type True d = (Inr r, d')"
  note s = saveToken_Inr [OF c]
  show bl: "token_blacklisted r" using s(1) by simp
  show "r \<in> set (tokens d')" using s(2) by simp
  have "find (\<lambda>x. token_token x = hashed L token \<and> token_type x = type
                   \<and> token_blacklisted x = False) (tokens d @ [r]) = None"
    using bl s(3) by (auto simp: find_None_iff)
  then show "verifyToken L token type False d' = (Inl (Error ''Token not found''), d')"
    using s(2) by (simp add: verifyToken_def token_findFirst_def)
next
  fix r assume a: "tokens_unique d \<and> r \<in> set (tokens d) \<and> token_token r = hashed L token
          \<and> token_blacklisted r"
  have "find (\<lambda>x. token_token x = hashed L token \<and> token_type x = type
                   \<and> token_blacklisted x = False) (tokens d) = None"
    using a unique_token_eq [of "tokens d" r]
    by (auto simp: find_None_iff tokens_unique_def)
  then show "verifyToken L token type False d = (Inl (Error ''Token not found''), d)"
    by (simp add: verifyToken_def token_findFirst_def)
qed

theorem blacklist_isolation_witness:
  "saveToken checksum_codec ''abc'' ''u1'' 600 RESET_PASSWORD True db0
     = (Inr (abc_token ''u1'' 600 RESET_PASSWORD True), db_token ''u1'' 600 RESET_PASSWORD True)
 \<and> tokens_unique (db_token ''u1'' 600 RESET_PASSWORD True)
 \<and> token_blacklisted (abc_token ''u1'' 600 RESET_PASSWORD True)
 \<and> abc_token ''u1'' 600 RESET_PASSWORD True
     \<in> set (tokens (db_token ''u1'' 600 RESET_PASSWORD True))
 \<and> verifyToken checksum_codec ''abc'' RESET_PASSWORD False
       (db_token ''u1'' 600 RESET_PASSWORD True)
     = (Inl (Error ''Token not found''), db_token ''u1'' 600 RESET_PASSWORD True)
 \<and> verifyToken checksum_codec ''abc'' RESET_PASSWORD False
       (db_token ''u1'' 600 RESET_PASSWORD False)
     = (Inr (abc_token ''u1'' 600 RESET_PASSWORD False),
        db_token ''u1'' 600 RESET_PASSWORD False)
 \<and> \<not> token_blacklisted (abc_token ''u1'' 600 RESET_PASSWORD False)"
proof -
  have t: "saveToken checksum_codec ''abc'' ''u1'' 600 RESET_PASSWORD True db0
             = (Inr (abc_token ''u1'' 600 RESET_PASSWORD True),
                db_token ''u1'' 600 RESET_PASSWORD True)"
    by (simp add: saveToken_def token_create_def db0_def alice_def abc_token_def
        db_token_def Let_def)
  have u: "tokens_unique (db_token ''u1'' 600 RESET_PASSWORD True)"
    by (simp add: tokens_unique_def db_token_def)
  have v: "verifyToken checksum_codec ''abc'' RESET_PASSWORD False
             (db_token ''u1'' 600 RESET_PASSWORD False)
           = (Inr (abc_token ''u1'' 600 RESET_PASSWORD False),
              db_token ''u1'' 600 RESET_PASSWORD False)"
    by (simp add: verifyToken_def token_findFirst_def db_token_def abc_token_def Let_def)
  show ?thesis
    using blacklist_isolation [where L = checksum_codec and token = "''abc''"
        and userId = "''u1''" and expires = 600 and type = RESET_PASSWORD and d = db0] t
      blacklist_isolation [where L = checksum_codec and token = "''abc''"
        and type = RESET_PASSWORD and d = "db_token ''u1'' 600 RESET_PASSWORD False"] v u
    by simp
qed

text \<open>
  C9, uniform failure of a password reset. Whatever the user service does: an error of
  \<open>resetPassword\<close> is the \<open>ApiError\<close> with status 401 and message
  \<open>Password reset failed\<close> and no other; whenever the \<open>try\<close> block fails, with any error
  at any step, \<open>resetPassword\<close> fails with that error; and in particular so it does when
  the token is not found, when the user service finds no user, when the update of the
  password fails, and when the deletion of the user's reset tokens fails, in which case
  the store it leaves is the one with the password already updated.
\<close>

theorem reset_failure_uniform:
  "(\<forall>e d'. resetPassword L US fault token newPassword d = (Inl e, d') \<longrightarrow>
        e = ApiError 401 ''Password reset failed'')
 \<and> (\<forall>e d'. resetPassword_try L US fault token newPassword d = (Inl e, d') \<longrightarrow>
        resetPassword L US fault token newPassword d
          = (Inl (ApiError 401 ''Password reset failed''), d'))
 \<and> (\<forall>e d1. verifyToken L token RESET_PASSWORD False d = (Inl e, d1) \<longrightarrow>
        resetPassword L US fault token newPassword d
          = (Inl (ApiError 401 ''Password reset failed''), d1))
 \<and> (\<forall>r d1 d2. verifyToken L token RESET_PASSWORD False d = (Inr r, d1)
        \<and> getUserById US (token_userId r) d1 = (Inr None, d2) \<longrightarrow>
        resetPassword L US fault token newPassword d
          = (Inl (ApiError 401 ''Password reset failed''), d2))
 \<and> (\<forall>r d1 u d2 e d3. verifyToken L token RESET_PASSWORD False d = (Inr r, d1)
        \<and> getUserById US (token_userId r) d1 = (Inr (Some u), d2)
        \<and> updateUserById US (user_id u) (Password newPassword) d2 = (Inl e, d3) \<longrightarrow>
        resetPassword L US fault token newPassword d
          = (Inl (ApiError 401 ''Password reset failed''), d3))
 \<and> (\<forall>r d1 u d2 u' d3 e d4. verifyToken L token RESET_PASSWORD False d = (Inr r, d1)
        \<and> getUserById US (token_userId r) d1 = (Inr (Some u), d2)
        \<and> updateUserById US (user_id u) (Password newPassword) d2 = (Inr u', d3)
        \<and> token_deleteMany fault (user_id u) RESET_PASSWORD d3 = (Inl e, d4) \<longrightarrow>
        resetPassword L US fault token newPassword d
          = (Inl (ApiError 401 ''Password reset failed''), d4))
 \<and> (\<forall>e uid. token_deleteMany (Some e) uid RESET_PASSWORD d = (Inl e, d))"
  by (auto simp: resetPassword_def resetPassword_try_def UNAUTHORIZED_def
      token_deleteMany_def split: prod.splits sum.splits option.splits)

theorem reset_failure_uniform_witness:
  "resetPassword_try checksum_codec store_userService None ''abc'' ''new'' db0
     = (Inl (Error ''Token not found''), db0)
 \<and> resetPassword checksum_codec store_userService None ''abc'' ''new'' db0
     = (Inl (ApiError 401 ''Password reset failed''), db0)
 \<and> verifyToken checksum_codec ''abc'' RESET_PASSWORD False
       (db_token ''ghost'' 600 RESET_PASSWORD False)
     = (Inr (abc_token ''ghost'' 600 RESET_PASSWORD False),
        db_token ''ghost'' 600 RESET_PASSWORD False)
 \<and> getUserById store_userService ''ghost'' (db_token ''ghost'' 600 RESET_PASSWORD False)
     = (Inr None, db_token ''ghost'' 600 RESET_PASSWORD False)
 \<and> resetPassword checksum_codec store_userService None ''abc'' ''new''
       (db_token ''ghost'' 600 RESET_PASSWORD False)
     = (Inl (ApiError 401 ''Password reset failed''),
        db_token ''ghost'' 600 RESET_PASSWORD False)
 \<and> updateUserById failing_userService ''u1'' (Password ''new'')
       (db_token ''u1'' 600 RESET_PASSWORD False)
     = (Inl (ApiError 404 ''User not found''), db_token ''u1'' 600 RESET_PASSWORD False)
 \<and> resetPassword checksum_codec failing_userService None ''abc'' ''new''
       (db_token ''u1'' 600 RESET_PASSWORD False)
     = (Inl (ApiError 401 ''Password reset failed''), db_token ''u1'' 600 RESET_PASSWORD False)
 \<and> updateUserById store_userService ''u1'' (Password ''new'')
       (db_token ''u1'' 600 RESET_PASSWORD False)
     = (Inr (alice\<lparr>user_password := ''new''\<rparr>), db_new_password)
 \<and> token_deleteMany (Some ClientRequestFailed) ''u1'' RESET_PASSWORD db_new_password
     = (Inl ClientRequestFailed, db_new_password)
 \<and> resetPassword checksum_codec store_userService (Some ClientRequestFailed) ''abc'' ''new''
       (db_token ''u1'' 600 RESET_PASSWORD False)
     = (Inl (ApiError 401 ''Password reset failed''), db_new_password)"
proof -
  have t: "resetPassword_try checksum_codec store_userService None ''abc'' ''new'' db0
             = (Inl (Error ''Token not found''), db0)"
    by (simp add: resetPassword_try_def verifyToken_def token_findFirst_def db0_def Let_def)
  have v: "verifyToken checksum_codec ''abc'' RESET_PASSWORD False (db_token uid 600 RESET_PASSWORD False)
             = (Inr (abc_token uid 600 RESET_PASSWORD False),
                db_token uid 600 RESET_PASSWORD False)" for uid
    by (simp add: verifyToken_def token_findFirst_def db_token_def abc_token_def Let_def)
  have g: "getUserById store_userService ''ghost'' (db_token ''ghost'' 600 RESET_PASSWORD False)
             = (Inr None, db_token ''ghost'' 600 RESET_PASSWORD False)"
    by (simp add: store_userService_def db_token_def db0_def alice_def)
  have g': "getUserById failing_userService ''u1'' (db_token ''u1'' 600 RESET_PASSWORD False)
             = (Inr (Some alice), db_token ''u1'' 600 RESET_PASSWORD False)"
    by (simp add: failing_userService_def store_userService_def db_token_def db0_def
        alice_def)
  have up: "updateUserById failing_userService ''u1'' (Password ''new'')
              (db_token ''u1'' 600 RESET_PASSWORD False)
            = (Inl (ApiError 404 ''User not found''), db_token ''u1'' 600 RESET_PASSWORD False)"
    by (simp add: failing_userService_def)
  have tu: "token_userId (abc_token uid 600 RESET_PASSWORD False) = uid" for uid
    by (simp add: abc_token_def)
  have ua: "user_id alice = ''u1''"
    by (simp add: alice_def)
  have up': "updateUserById store_userService ''u1'' (Password ''new'')
               (db_token ''u1'' 600 RESET_PASSWORD False)
             = (Inr (alice\<lparr>user_password := ''new''\<rparr>), db_new_password)"
    by (simp add: store_userService_def db_token_def db_new_password_def db0_def alice_def
        Let_def)
  have del: "token_deleteMany (Some ClientRequestFailed) ''u1'' RESET_PASSWORD db_new_password
               = (Inl ClientRequestFailed, db_new_password)"
    by (simp add: token_deleteMany_def)
  have gg: "getUserById store_userService
              (token_userId (abc_token ''ghost'' 600 RESET_PASSWORD False))
              (db_token ''ghost'' 600 RESET_PASSWORD False)
            = (Inr None, db_token ''ghost'' 600 RESET_PASSWORD False)"
    using g by (simp add: tu)
  have gf: "getUserById failing_userService
              (token_userId (abc_token ''u1'' 600 RESET_PASSWORD False))
              (db_token ''u1'' 600 RESET_PASSWORD False)
            = (Inr (Some alice), db_token ''u1'' 600 RESET_PASSWORD False)"
    using g' by (simp add: tu)
  have gs: "getUserById store_userService
              (token_userId (abc_token ''u1'' 600 RESET_PASSWORD False))
              (db_token ''u1'' 600 RESET_PASSWORD False)
            = (Inr (Some alice), db_token ''u1'' 600 RESET_PASSWORD False)"
    by (simp add: tu store_userService_def db_token_def db0_def alice_def)
  have uf: "updateUserById failing_userService (user_id alice) (Password ''new'')
              (db_token ''u1'' 600 RESET_PASSWORD False)
            = (Inl (ApiError 404 ''User not found''), db_token ''u1'' 600 RESET_PASSWORD False)"
    using up by (simp add: ua)
  have us: "updateUserById store_userService (user_id alice) (Password ''new'')
              (db_token ''u1'' 600 RESET_PASSWORD False)
            = (Inr (alice\<lparr>user_password := ''new''\<rparr>), db_new_password)"
    using up' by (simp add: ua)
  have ds: "token_deleteMany (Some ClientRequestFailed) (user_id alice) RESET_PASSWORD
              db_new_password
            = (Inl ClientRequestFailed, db_new_password)"
    using del by (simp add: ua)
  note at_db0 = reset_failure_uniform [where L = checksum_codec and US = store_userService
      and fault = None and token = "''abc''" and newPassword = "''new''" and d = db0]
  note at_ghost = reset_failure_uniform [where L = checksum_codec and US = store_userService
      and fault = None and token = "''abc''" and newPassword = "''new''"
      and d = "db_token ''ghost'' 600 RESET_PASSWORD False"]
  note at_failing = reset_failure_uniform [where L = checksum_codec
      and US = failing_userService and fault = None and token = "''abc''"
      and newPassword = "''new''" and d = "db_token ''u1'' 600 RESET_PASSWORD False"]
  note at_fault = reset_failure_uniform [where L = checksum_codec and US = store_userService
      and fault = "Some ClientRequestFailed" and token = "''abc''"
      and newPassword = "''new''" and d = "db_token ''u1'' 600 RESET_PASSWORD False"]
  have r1: "resetPassword checksum_codec store_userService None ''abc'' ''new'' db0
              = (Inl (ApiError 401 ''Password reset failed''), db0)"
    by (rule at_db0 [THEN conjunct2, THEN conjunct1, rule_format, OF t])
  have r2: "resetPassword checksum_codec store_userService None ''abc'' ''new''
              (db_token ''ghost'' 600 RESET_PASSWORD False)
            = (Inl (ApiError 401 ''Password reset failed''),
               db_token ''ghost'' 600 RESET_PASSWORD False)"
    by (rule at_ghost [THEN conjunct2, THEN conjunct2, THEN conjunct2, THEN conjunct1,
          rule_format, OF conjI [OF v gg]])
  have r3: "resetPassword checksum_codec failing_userService None ''abc'' ''new''
              (db_token ''u1'' 600 RESET_PASSWORD False)
            = (Inl (ApiError 401 ''Password reset failed''),
               db_token ''u1'' 600 RESET_PASSWORD False)"
    by (rule at_failing [THEN conjunct2, THEN conjunct2, THEN conjunct2, THEN conjunct2,
          THEN conjunct1, rule_format, OF conjI [OF v conjI [OF gf uf]]])
  have r4: "resetPassword checksum_codec store_userService (Some ClientRequestFailed) ''abc''
              ''new'' (db_token ''u1'' 600 RESET_PASSWORD False)
            = (Inl (ApiError 401 ''Password reset failed''), db_new_password)"
    by (rule at_fault [THEN conjunct2, THEN conjunct2, THEN conjunct2, THEN conjunct2,
          THEN conjunct2, THEN conjunct1, rule_format,
          OF conjI [OF v conjI [OF gs conjI [OF us ds]]]])
  show ?thesis
    by (intro conjI t r1 v g r2 up r3 up' del r4)
qed

section \<open>Authorization\<close>

text \<open>
  C7, the authorization decision with the identity override. Let the session token of
  the request validate to a session and its user, and let the list of required rights be
  non-empty. Then the middleware calls \<open>next()\<close>, the user attached, if and only if every
  required right is among the rights of the user's role (no rights when the role has no
  entry) or the route parameter \<open>userId\<close> is the user's id; and it calls \<open>next\<close> with the
  403 \<open>Forbidden\<close> error if and only if neither holds. In particular a user whose role
  grants nothing passes when the route parameter is their own id and is refused with
  \<open>Forbidden\<close> when it is any other id or absent.
\<close>

theorem authorization_decision:
  assumes authenticated:
      "validateSessionToken L now1 now2 now3 (case bearer req of None \<Rightarrow> [] | Some t \<Rightarrow> t) d
       = (Inr \<lparr>session = Some s, user = Some u\<rparr>, d')"
    and required: "requiredRights \<noteq> []"
  shows "(auth L roleRights now1 now2 now3 requiredRights req d = (Next (Some u), d')
           \<longleftrightarrow> (\<forall>right \<in> set requiredRights.
                   right \<in> set (case roleRights (user_role u) of None \<Rightarrow> [] | Some rs \<Rightarrow> rs))
               \<or> params_userId req = Some (user_id u))
       \<and> (auth L roleRights now1 now2 now3 requiredRights req d
            = (NextErr (ApiError 403 ''Forbidden''), d')
           \<longleftrightarrow> \<not> ((\<forall>right \<in> set requiredRights.
                   right \<in> set (case roleRights (user_role u) of None \<Rightarrow> [] | Some rs \<Rightarrow> rs))
               \<or> params_userId req = Some (user_id u)))
       \<and> ((case roleRights (user_role u) of None \<Rightarrow> [] | Some rs \<Rightarrow> rs) = [] \<longrightarrow>
            (params_userId req = Some (user_id u) \<longrightarrow>
               auth L roleRights now1 now2 now3 requiredRights req d = (Next (Some u), d'))
          \<and> (params_userId req \<noteq> Some (user_id u) \<longrightarrow>
               auth L roleRights now1 now2 now3 requiredRights req d
                 = (NextErr (ApiError 403 ''Forbidden''), d')))"
  using authenticated required
  by (cases requiredRights)
     (auto simp: auth_def Let_def list_all_iff FORBIDDEN_def)

theorem authorization_decision_witness:
  "validateSessionToken checksum_codec 1000 1000 1000
     (case bearer \<lparr>authorization = Some ''Bearer abc'', params_userId = Some ''u1''\<rparr> of
        None \<Rightarrow> [] | Some t \<Rightarrow> t) (db_session (days 40))
     = (Inr \<lparr>session = Some (abc_session (days 40)), user = Some alice\<rparr>, db_session (days 40))
 \<and> validateSessionToken checksum_codec 1000 1000 1000
     (case bearer \<lparr>authorization = Some ''Bearer abc'', params_userId = Some ''u2''\<rparr> of
        None \<Rightarrow> [] | Some t \<Rightarrow> t) (db_session (days 40))
     = (Inr \<lparr>session = Some (abc_session (days 40)), user = Some alice\<rparr>, db_session (days 40))
 \<and> [''anyRight''] \<noteq> []
 \<and> (case sample_roleRights (user_role alice) of None \<Rightarrow> [] | Some rs \<Rightarrow> rs) = []
 \<and> auth checksum_codec sample_roleRights 1000 1000 1000 [''anyRight'']
       \<lparr>authorization = Some ''Bearer abc'', params_userId = Some ''u1''\<rparr> (db_session (days 40))
     = (Next (Some alice), db_session (days 40))
 \<and> auth checksum_codec sample_roleRights 1000 1000 1000 [''anyRight'']
       \<lparr>authorization = Some ''Bearer abc'', params_userId = Some ''u2''\<rparr> (db_session (days 40))
     = (NextErr (ApiError 403 ''Forbidden''), db_session (days 40))"
proof -
  have b: "bearer \<lparr>authorization = Some ''Bearer abc'', params_userId = p\<rparr> = Some ''abc''" for p
    by (simp add: bearer_def at_index_def)
  have v: "validateSessionToken checksum_codec 1000 1000 1000
             (case bearer \<lparr>authorization = Some ''Bearer abc'', params_userId = p\<rparr> of
                None \<Rightarrow> [] | Some t \<Rightarrow> t) (db_session (days 40))
           = (Inr \<lparr>session = Some (abc_session (days 40)), user = Some alice\<rparr>,
              db_session (days 40))" for p
    by (simp add: b validateSessionToken_def session_findUnique_include_user_def
        db_session_def abc_session_def db0_def alice_def days_def Let_def)
  have n: "[''anyRight''] \<noteq> []"
    by simp
  have r: "(case sample_roleRights (user_role alice) of None \<Rightarrow> [] | Some rs \<Rightarrow> rs) = []"
    by (simp add: sample_roleRights_def alice_def)
  have i: "user_id alice = ''u1''"
    by (simp add: alice_def)
  have a1: "auth checksum_codec sample_roleRights 1000 1000 1000 [''anyRight'']
              \<lparr>authorization = Some ''Bearer abc'', params_userId = Some ''u1''\<rparr>
              (db_session (days 40))
            = (Next (Some alice), db_session (days 40))"
    using authorization_decision [OF v [of "Some ''u1''"] n, of sample_roleRights] r i
    by simp
  have a2: "auth checksum_codec sample_roleRights 1000 1000 1000 [''anyRight'']
              \<lparr>authorization = Some ''Bearer abc'', params_userId = Some ''u2''\<rparr>
              (db_session (days 40))
            = (NextErr (ApiError 403 ''Forbidden''), db_session (days 40))"
    using authorization_decision [OF v [of "Some ''u2''"] n, of sample_roleRights] r i
    by simp
  show ?thesis
    by (intro conjI v n r a1 a2)
qed

section \<open>The shape of a validation result\<close>

text \<open>
  C10, the result of a validation. Every value that \<open>validateSessionToken\<close> returns has
  either both fields absent, or both present, the user being the one the session
  references; never one without the other.
\<close>

theorem validation_result_shape:
  assumes "validateSessionToken L now1 now2 now3 token d = (Inr r, d')"
  shows "(session r = None \<and> user r = None)
       \<or> (\<exists>s u. session r = Some s \<and> user r = Some u \<and> user_id u = session_userId s)"
  using assms
  by (auto simp: validateSessionToken_def session_findUnique_include_user_def
      session_delete_def session_update_expiresAt_def Let_def
      dest: find_Some_pred split: option.splits if_splits)

theorem validation_result_shape_witness:
  "validateSessionToken checksum_codec 1000 1000 1000 ''abc'' (db_session (days 40))
     = (Inr \<lparr>session = Some (abc_session (days 40)), user = Some alice\<rparr>, db_session (days 40))
 \<and> validateSessionToken checksum_codec 1000 1000 1000 ''abc'' db0
     = (Inr \<lparr>session = None, user = None\<rparr>, db0)
 \<and> user_id alice = session_userId (abc_session (days 40))"
proof -
  have v: "validateSessionToken checksum_codec 1000 1000 1000 ''abc'' (db_session (days 40))
           = (Inr \<lparr>session = Some (abc_session (days 40)), user = Some alice\<rparr>,
              db_session (days 40))"
    by (simp add: validateSessionToken_def session_findUnique_include_user_def
        db_session_def abc_session_def db0_def alice_def days_def Let_def)
  have w: "validateSessionToken checksum_codec 1000 1000 1000 ''abc'' db0
           = (Inr \<lparr>session = None, user = None\<rparr>, db0)"
    by (simp add: validateSessionToken_def session_findUnique_include_user_def db0_def
        Let_def)
  show ?thesis
    using validation_result_shape [OF v] validation_result_shape [OF w] v w
    by simp
qed

end
